theory Spec2Isabelle
  imports Complex_Main
begin

unbundle bit_operations_syntax

section \<open>The leap-second aware console clock \<open>leapclock.c\<close>\<close>

text \<open>
  The program is one C file: \<open>get_tai_offset\<close>, \<open>diff_tv\<close>, two rendering
  helpers and \<open>main\<close>, whose loop polls the keyboard, reads the kernel clock with
  \<open>adjtimex\<close>, classifies the step since the last sample, recomputes the TAI-UTC
  offset, applies the leap slew and prints four lines.

  Conventions of the embedding.
  \<^item> \<open>time_t\<close>, \<open>suseconds_t\<close> and \<open>int\<close> values are \<open>int\<close>: they hold clock
    readings, leap-second counts and kernel tick lengths, all far inside the 32 and 64 bit
    ranges, and no operation of the program is meant to wrap.
  \<open>/\<close> and \<open>%\<close> on them are C's (rounding towards zero): \<open>c_div\<close> and \<open>c_mod\<close>.
  \<^item> The \<open>int\<close> variables \<open>leap\<close>, \<open>step\<close> and \<open>slew\<close> only ever hold 0 or 1 and are
    \<open>bool\<close>; \<open>of_bool\<close> reads them back where the code adds \<open>step\<close> to a time.
  \<^item> A \<open>double\<close> is the \<open>real\<close> it denotes. In the slew (lines 161 to 168) every
    conversion and operation rounds its exact result to binary64, to nearest and ties to
    even (\<open>b64\<close>), in the order C evaluates them, with no fused multiply-add. The
    magnitudes of the program stay clear of overflow and of subnormal numbers, which
    \<open>b64\<close> leaves out. A quotient by \<open>slew_tick = 0\<close> is an infinity or a NaN in C and
    0 here, so the theorems about the slew assume a positive kernel tick length, which
    keeps \<open>slew_tick\<close> from 0. The conversion of a \<open>double\<close> to \<open>long\<close> is \<open>trunc\<close>.
    \<open>diff_tv\<close> is only compared with \<open>-1.0\<close>, \<open>-0.8\<close> and \<open>1.0\<close>; it is kept exact,
    since on samples that lie on a grid of microseconds the comparisons of the doubles
    and of the exact values agree.
  \<^item> What the C library and the kernel supply is input: the two calendar functions
    \<open>gmtime\<close> (under \<open>TZ=posix/UTC\<close>) and \<open>mktime\<close> (under \<open>TZ=right/UTC\<close>) are
    parameters, and every turn of the loop reads one \<open>event\<close>: the value of \<open>getch\<close>,
    the return value of \<open>adjtimex\<close> and the \<open>struct timex\<close> it filled.
  \<^item> Drawing (\<open>print_border\<close>, the \<open>strftime\<close> formatting of \<open>print_time\<close>, the debug
    \<open>printf\<close>) is not modelled; a \<open>frame\<close> records the arguments of the four
    \<open>print_time\<close> calls of one turn.
\<close>

subsection \<open>C arithmetic\<close>

definition c_div :: "int \<Rightarrow> int \<Rightarrow> int" where
  "c_div a b = sgn a * sgn b * (\<bar>a\<bar> div \<bar>b\<bar>)"

definition c_mod :: "int \<Rightarrow> int \<Rightarrow> int" where
  "c_mod a b = a - b * c_div a b"

definition trunc :: "real \<Rightarrow> int" where
  "trunc x = (if 0 \<le> x then \<lfloor>x\<rfloor> else \<lceil>x\<rceil>)"

subsection \<open>binary64\<close>

text \<open>The integer nearest to \<open>q\<close>, the even one of two equally near.\<close>

definition round_even :: "real \<Rightarrow> int" where
  "round_even q =
     (let f = \<lfloor>q\<rfloor>; r = q - of_int f
      in if r < 1 / 2 then f else if 1 / 2 < r then f + 1 else if even f then f else f + 1)"

text \<open>The spacing of binary64 at \<open>x\<close>: \<open>2 ^ (e - 52)\<close> where \<open>2 ^ e \<le> \<bar>x\<bar> < 2 ^ (e + 1)\<close>,
  found by halving \<open>\<bar>x\<bar>\<close> down to \<open>[1, 2)\<close> or doubling it up to there.\<close>

function ulp_up :: "real \<Rightarrow> real \<Rightarrow> real" where
  "ulp_up x u = (if 2 \<le> x then ulp_up (x / 2) (2 * u) else u)"
  by pat_completeness auto
termination
  by (relation "measure (\<lambda>(x, u). nat \<lfloor>x\<rfloor>)") (auto, linarith)

function ulp_down :: "real \<Rightarrow> real \<Rightarrow> real" where
  "ulp_down x u = (if 0 < x \<and> x < 1 then ulp_down (2 * x) (u / 2) else u)"
  by pat_completeness auto
termination
proof (relation "measure (\<lambda>(x, u). nat \<lceil>1 / x\<rceil>)")
  show "wf (measure (\<lambda>(x, u). nat \<lceil>1 / x\<rceil>))" by simp
next
  fix x u :: real
  assume a: "0 < x \<and> x < 1"
  then have big: "1 < 1 / x" by simp
  have "\<lceil>1 / (2 * x)\<rceil> < \<lceil>1 / x\<rceil>"
  proof -
    define c where "c = \<lceil>1 / x\<rceil>"
    have c: "1 / x \<le> of_int c"
      by (simp add: c_def)
    have c2: "2 \<le> c"
      using big unfolding c_def by linarith
    have "1 / (2 * x) = (1 / x) / 2" by simp
    also have "\<dots> \<le> of_int c / 2" using c by simp
    also have "\<dots> \<le> of_int (c - 1)" using c2 by simp
    finally have "\<lceil>1 / (2 * x)\<rceil> \<le> c - 1" by (simp only: ceiling_le_iff)
    then show ?thesis by (simp add: c_def)
  qed
  moreover have "0 < \<lceil>1 / x\<rceil>" using big by linarith
  ultimately show "((2 * x, u / 2), (x, u)) \<in> measure (\<lambda>(x, u). nat \<lceil>1 / x\<rceil>)"
    by simp
qed

declare ulp_up.simps [simp del] ulp_down.simps [simp del]

definition ulp :: "real \<Rightarrow> real" where
  "ulp x = (if 1 \<le> \<bar>x\<bar> then ulp_up \<bar>x\<bar> (1 / 2 ^ 52) else ulp_down \<bar>x\<bar> (1 / 2 ^ 52))"

text \<open>Rounding to binary64: the nearest multiple of the spacing, with 53 bits.\<close>

definition b64 :: "real \<Rightarrow> real" where
  "b64 x = (if x = 0 then 0 else of_int (round_even (x / ulp x)) * ulp x)"

text \<open>The conversion of an integer to \<open>double\<close> and the four operations on doubles.\<close>

definition d_of_int :: "int \<Rightarrow> real" where
  "d_of_int n = b64 (of_int n)"

definition d_add :: "real \<Rightarrow> real \<Rightarrow> real" where
  "d_add a b = b64 (a + b)"

definition d_sub :: "real \<Rightarrow> real \<Rightarrow> real" where
  "d_sub a b = b64 (a - b)"

definition d_mul :: "real \<Rightarrow> real \<Rightarrow> real" where
  "d_mul a b = b64 (a * b)"

definition d_div :: "real \<Rightarrow> real \<Rightarrow> real" where
  "d_div a b = b64 (a / b)"

subsection \<open>Data\<close>

record timeval =
  tv_sec :: int
  tv_usec :: int

text \<open>The fields of \<open>struct timex\<close> that the program reads.\<close>

record timex =
  timex_time :: timeval
  timex_status :: int
  timex_tick :: int

definition STA_NANO :: int where
  "STA_NANO = 0x2000"

definition ERR :: int where
  "ERR = -1"

text \<open>\<open>KEY_RESIZE\<close> is octal 0632 in \<open>ncurses.h\<close>.\<close>

definition KEY_RESIZE :: int where
  "KEY_RESIZE = 410"

text \<open>The local variables of \<open>main\<close> that live across turns of the loop.\<close>

record state =
  last_tv_system :: timeval
  tai_offset :: int
  last_tai_offset :: int
  leap :: bool
  step :: bool
  slew :: bool
  tick :: int
  slew_tick :: int

text \<open>The arguments of the \<open>print_time\<close> calls of one turn.\<close>

record frame =
  fr_system :: timeval
  fr_utc :: timeval
  fr_tai :: timeval
  fr_leap :: bool

text \<open>What one turn of the loop reads from the terminal and the kernel.\<close>

record event =
  ev_getch :: int
  ev_adjtimex :: int
  ev_timex :: timex

text \<open>How a run ended: the exit status, whether the terminal is still in curses
  mode (\<open>initscr\<close> without \<open>endwin\<close>), and the frames drawn, oldest first.\<close>

record outcome =
  exit_status :: int
  curses_mode :: bool
  frames :: "frame list"

subsection \<open>\<open>get_tai_offset\<close> and \<open>diff_tv\<close>\<close>

definition get_tai_offset :: "(int \<Rightarrow> 'tm) \<Rightarrow> ('tm \<Rightarrow> int) \<Rightarrow> int \<Rightarrow> int" where
  "get_tai_offset gmtime mktime utc = mktime (gmtime utc) - utc + 10"

definition diff_tv :: "timeval \<Rightarrow> timeval \<Rightarrow> real" where
  "diff_tv tv1 tv2 =
     real_of_int (tv_sec tv1 - tv_sec tv2) + real_of_int (tv_usec tv1 - tv_usec tv2) / 1000000"

subsection \<open>The body of the loop of \<open>main\<close>\<close>

text \<open>Lines 133 to 135: the sampled time, in microseconds whatever the kernel's unit.\<close>

definition sample :: "timex \<Rightarrow> timeval" where
  "sample tx =
     (if timex_status tx AND STA_NANO \<noteq> 0
      then (timex_time tx)\<lparr>tv_usec := c_div (tv_usec (timex_time tx)) 1000\<rparr>
      else timex_time tx)"

text \<open>Lines 138 to 141. The two conditions of the \<open>if\<close> chain, in its order, name the
  branch taken; \<open>detect_step\<close> is the assignment of that branch.\<close>

datatype step_class = NORMAL | BACKWARD_STEP | DISCONTINUITY

definition classify :: "real \<Rightarrow> step_class" where
  "classify diff =
     (if diff > -1.0 \<and> diff < -0.8 then BACKWARD_STEP
      else if diff > 1.0 \<or> diff < -1.0 then DISCONTINUITY
      else NORMAL)"

definition detect_step :: "real \<Rightarrow> state \<Rightarrow> state" where
  "detect_step diff st =
     (case classify diff of
        BACKWARD_STEP \<Rightarrow> st\<lparr>step := True, slew := False\<rparr>
      | DISCONTINUITY \<Rightarrow> st\<lparr>step := False, slew := False, leap := False\<rparr>
      | NORMAL \<Rightarrow> st)"

text \<open>Lines 146 to 151.\<close>

definition update_offset :: "(int \<Rightarrow> 'tm) \<Rightarrow> ('tm \<Rightarrow> int) \<Rightarrow> timeval \<Rightarrow> state \<Rightarrow> state" where
  "update_offset gmtime mktime tv_system st =
     (if step st \<or> tv_sec (last_tv_system st) \<noteq> tv_sec tv_system then
        let off = get_tai_offset gmtime mktime (tv_sec tv_system + of_bool (step st))
        in st\<lparr>tai_offset := off,
              leap := (last_tai_offset st \<noteq> 0 \<and> off > last_tai_offset st),
              last_tai_offset := off,
              step := False\<rparr>
      else st)"

text \<open>Lines 161 and 162: the value assigned to \<open>diff\<close>. The cast binds first, then
  \<open>/\<close> and \<open>*\<close> from the left; the integer operands are converted to \<open>double\<close>.\<close>

definition slew_diff :: "int \<Rightarrow> int \<Rightarrow> timeval \<Rightarrow> real" where
  "slew_diff tck slw tv_utc =
     d_sub 1.0
       (d_mul (d_div (d_of_int (tck - slw)) (d_of_int slw))
          (d_add (d_of_int (c_mod (tv_sec tv_utc) 86400))
             (d_div (d_of_int (tv_usec tv_utc)) 1000000)))"

text \<open>Lines 169 to 172.\<close>

function borrow :: "timeval \<Rightarrow> timeval" where
  "borrow tv =
     (if tv_usec tv < 0
      then borrow (tv\<lparr>tv_sec := tv_sec tv - 1, tv_usec := tv_usec tv + 1000000\<rparr>)
      else tv)"
  by pat_completeness auto
termination
  by (relation "measure (\<lambda>tv. nat (- tv_usec tv))") auto

declare borrow.simps [simp del]

text \<open>Lines 156 to 175, on the state and on \<open>tv_utc\<close>; \<open>ktick\<close> is \<open>timex.tick\<close>.\<close>

definition slew_step :: "int \<Rightarrow> timeval \<Rightarrow> state \<Rightarrow> state \<times> timeval" where
  "slew_step ktick tv_utc st =
     (let st1 = (if leap st \<and> c_mod (tv_sec tv_utc) 86400 = 0 then st\<lparr>slew := True\<rparr> else st)
      in if slew st1 then
           let st2 = (if slew_tick st1 = 0 \<or> slew_tick st1 > ktick
                      then st1\<lparr>slew_tick := ktick\<rparr> else st1);
               diff = slew_diff (tick st2) (slew_tick st2) tv_utc;
               finished = (diff \<le> 0 \<or> ktick > c_div (tick st2 + slew_tick st2) 2);
               diff' = (if finished then 0 else diff);
               st3 = (if finished then st2\<lparr>slew := False, slew_tick := 0\<rparr> else st2)
           in (st3,
               borrow (tv_utc\<lparr>tv_usec :=
                 trunc (d_sub (d_of_int (tv_usec tv_utc)) (d_mul diff' 1000000))\<rparr>))
         else (st1\<lparr>tick := ktick\<rparr>, tv_utc))"

text \<open>Lines 133 to 153: the sample is classified, the offset brought up to date and
  the sample remembered.\<close>

definition clock_update :: "(int \<Rightarrow> 'tm) \<Rightarrow> ('tm \<Rightarrow> int) \<Rightarrow> timex \<Rightarrow> state \<Rightarrow> state" where
  "clock_update gmtime mktime tx st =
     (let tv_system = sample tx;
          st1 = detect_step (diff_tv tv_system (last_tv_system st)) st;
          st2 = update_offset gmtime mktime tv_system st1
      in st2\<lparr>last_tv_system := tv_system\<rparr>)"

text \<open>Lines 133 to 183: one turn after a successful \<open>adjtimex\<close>.\<close>

definition iteration :: "(int \<Rightarrow> 'tm) \<Rightarrow> ('tm \<Rightarrow> int) \<Rightarrow> timex \<Rightarrow> state \<Rightarrow> state \<times> frame" where
  "iteration gmtime mktime tx st =
     (let tv_system = sample tx;
          st3 = clock_update gmtime mktime tx st;
          (st4, tv_utc) = slew_step (timex_tick tx) tv_system st3;
          tv_tai = tv_utc\<lparr>tv_sec := tv_sec tv_utc + tai_offset st4\<rparr>
      in (st4, \<lparr>fr_system = tv_system, fr_utc = tv_utc, fr_tai = tv_tai, fr_leap = leap st4\<rparr>))"

subsection \<open>\<open>main\<close>\<close>

text \<open>The loop of line 120 on the events still to come; \<open>None\<close> when they run out
  before the program returns. \<open>fs\<close> holds the frames drawn so far, newest first.\<close>

fun main_loop ::
  "(int \<Rightarrow> 'tm) \<Rightarrow> ('tm \<Rightarrow> int) \<Rightarrow> bool \<Rightarrow> state \<Rightarrow> frame list \<Rightarrow> event list \<Rightarrow> outcome option" where
  "main_loop gmtime mktime debug st fs [] = None"
| "main_loop gmtime mktime debug st fs (e # es) =
     (if ev_getch e = ERR \<or> ev_getch e = KEY_RESIZE then
        if ev_adjtimex e < 0
        then Some \<lparr>exit_status = 1, curses_mode = \<not> debug, frames = rev fs\<rparr>
        else (case iteration gmtime mktime (ev_timex e) st of
                (st', fr) \<Rightarrow> main_loop gmtime mktime debug st' (fr # fs) es)
      else Some \<lparr>exit_status = 0, curses_mode = False, frames = rev fs\<rparr>)"

text \<open>Lines 115 to 118.\<close>

definition init_state :: state where
  "init_state =
     \<lparr>last_tv_system = \<lparr>tv_sec = 0, tv_usec = 0\<rparr>, tai_offset = 0, last_tai_offset = 0,
      leap = False, step = False, slew = False, tick = 0, slew_tick = 0\<rparr>"

text \<open>\<open>main\<close> on its argument vector and the events of the run. \<open>initscr\<close> puts the
  terminal in curses mode unless \<open>-d\<close> is given; only the \<open>endwin\<close> of line 192
  leaves it.\<close>

definition main :: "(int \<Rightarrow> 'tm) \<Rightarrow> ('tm \<Rightarrow> int) \<Rightarrow> string list \<Rightarrow> event list \<Rightarrow> outcome option" where
  "main gmtime mktime argv evs =
     (let debug = (length argv > 1 \<and> argv ! 1 = ''-d'')
      in main_loop gmtime mktime debug init_state [] evs)"

subsection \<open>A calendar for the examples\<close>

text \<open>A broken-down time is kept as the day number and the second of the day. The
  leap-second aware reading counts the leap seconds inserted since 1972: 26 before
  2017-01-01 00:00:00 UTC (epoch second 1483228800) and 27 from then on, so that the
  offset steps from 36 to 37 there.\<close>

definition ex_gmtime :: "int \<Rightarrow> int \<times> int" where
  "ex_gmtime t = (t div 86400, t mod 86400)"

definition ex_mktime :: "int \<times> int \<Rightarrow> int" where
  "ex_mktime c =
     (let t = fst c * 86400 + snd c in t + (if t \<ge> 1483228800 then 27 else 26))"

subsection \<open>Example inputs\<close>

text \<open>The first reading of a run, at 2017-01-01 00:00:00 UTC.\<close>

definition ex_timex_first :: timex where
  "ex_timex_first =
     \<lparr>timex_time = \<lparr>tv_sec = 1483228800, tv_usec = 0\<rparr>, timex_status = 0,
      timex_tick = 10000\<rparr>"

text \<open>The same instant read in nanoseconds, 123456789 ns into the second.\<close>

definition ex_timex_nano :: timex where
  "ex_timex_nano =
     \<lparr>timex_time = \<lparr>tv_sec = 1483228800, tv_usec = 123456789\<rparr>, timex_status = 0x2001,
      timex_tick = 10000\<rparr>"

text \<open>The state 50 ms before that midnight, the offset still 36.\<close>

definition ex_state_before_leap :: state where
  "ex_state_before_leap =
     \<lparr>last_tv_system = \<lparr>tv_sec = 1483228799, tv_usec = 950000\<rparr>, tai_offset = 36,
      last_tai_offset = 36, leap = False, step = False, slew = False, tick = 10000,
      slew_tick = 0\<rparr>"

text \<open>A slew under way 5000 s into the day: the tick length was 10000 before the slew
  and the kernel now reports 9999.\<close>

definition ex_state_slewing :: state where
  "ex_state_slewing =
     \<lparr>last_tv_system = \<lparr>tv_sec = 1483233799, tv_usec = 950000\<rparr>, tai_offset = 37,
      last_tai_offset = 37, leap = False, step = False, slew = True, tick = 10000,
      slew_tick = 9999\<rparr>"

definition ex_timex_slewing :: timex where
  "ex_timex_slewing =
     \<lparr>timex_time = \<lparr>tv_sec = 1483233800, tv_usec = 0\<rparr>, timex_status = 0,
      timex_tick = 9999\<rparr>"

text \<open>The same second read 19948 microseconds later.\<close>

definition ex_timex_slewing_later :: timex where
  "ex_timex_slewing_later =
     \<lparr>timex_time = \<lparr>tv_sec = 1483233800, tv_usec = 19948\<rparr>, timex_status = 0,
      timex_tick = 9999\<rparr>"

lemmas ex_defs = ex_timex_first_def ex_timex_nano_def ex_state_before_leap_def
  ex_state_slewing_def ex_timex_slewing_def ex_timex_slewing_later_def ex_gmtime_def ex_mktime_def init_state_def

lemmas model_defs = iteration_def clock_update_def sample_def diff_tv_def detect_step_def
  classify_def update_offset_def get_tai_offset_def slew_step_def slew_diff_def
  STA_NANO_def c_mod_def c_div_def trunc_def Let_def

lemmas b64_defs = d_of_int_def d_add_def d_sub_def d_mul_def d_div_def b64_def ulp_def
  round_even_def ulp_up.simps ulp_down.simps

section \<open>Properties\<close>

subsection \<open>What each block of the loop leaves alone\<close>

lemma detect_step_fields:
  "tai_offset (detect_step d st) = tai_offset st"
  "last_tai_offset (detect_step d st) = last_tai_offset st"
  "tick (detect_step d st) = tick st"
  "slew_tick (detect_step d st) = slew_tick st"
  "last_tv_system (detect_step d st) = last_tv_system st"
  by (simp_all add: detect_step_def split: step_class.split)

lemma update_offset_fields:
  "tick (update_offset g m tv st) = tick st"
  "slew_tick (update_offset g m tv st) = slew_tick st"
  "slew (update_offset g m tv st) = slew st"
  "last_tv_system (update_offset g m tv st) = last_tv_system st"
  by (simp_all add: update_offset_def Let_def)

lemma clock_update_fields:
  "tick (clock_update g m tx st) = tick st"
  "slew_tick (clock_update g m tx st) = slew_tick st"
  "last_tv_system (clock_update g m tx st) = sample tx"
  by (simp_all add: clock_update_def Let_def update_offset_fields detect_step_fields)

lemma slew_step_fields:
  "tai_offset (fst (slew_step k tv st)) = tai_offset st"
  "last_tai_offset (fst (slew_step k tv st)) = last_tai_offset st"
  "leap (fst (slew_step k tv st)) = leap st"
  "step (fst (slew_step k tv st)) = step st"
  "last_tv_system (fst (slew_step k tv st)) = last_tv_system st"
  by (simp_all add: slew_step_def Let_def)

lemma iteration_state:
  "fst (iteration g m tx st) =
     fst (slew_step (timex_tick tx) (sample tx) (clock_update g m tx st))"
  by (simp add: iteration_def Let_def split: prod.split)

lemma iteration_utc:
  "fr_utc (snd (iteration g m tx st)) =
     snd (slew_step (timex_tick tx) (sample tx) (clock_update g m tx st))"
  by (simp add: iteration_def Let_def split: prod.split)

subsection \<open>The TAI offset\<close>

text \<open>
  C1. For every instant \<open>t\<close>, \<open>get_tai_offset\<close> is the leap-second aware reading
  (\<open>mktime\<close>) of the leap-second free calendar time of \<open>t\<close> (\<open>gmtime\<close>), minus
  \<open>t\<close>, plus 10. In a turn of the loop the offset is recomputed exactly when a step is
  pending after the classification or the whole second of the sample differs from the
  last one; the instant probed is the sampled second plus one when the step is pending
  and the sampled second otherwise; in every other turn the offset keeps its value.
\<close>

theorem offset_recompute:
  "get_tai_offset gmtime mktime t = mktime (gmtime t) - t + 10 \<and>
   tai_offset (fst (iteration gmtime mktime tx st)) =
     (let tv = sample tx; st1 = detect_step (diff_tv tv (last_tv_system st)) st
      in if step st1 \<or> tv_sec (last_tv_system st) \<noteq> tv_sec tv
         then get_tai_offset gmtime mktime (if step st1 then tv_sec tv + 1 else tv_sec tv)
         else tai_offset st)"
  by (simp add: iteration_state clock_update_def slew_step_fields update_offset_def
      detect_step_fields Let_def get_tai_offset_def)

text \<open>
  C2. The specification: in every turn that recomputes the offset, the first one after
  startup included, \<open>leap\<close> becomes true exactly when the new offset exceeds the
  recorded one. The code guards the comparison with \<open>last_tai_offset &&\<close>: in a turn that
  recomputes the offset, \<open>leap\<close> becomes true exactly when the recorded offset is
  not 0 and the new offset exceeds it, and false otherwise.
\<close>

theorem leap_after_recompute:
  assumes "step (detect_step (diff_tv (sample tx) (last_tv_system st)) st) \<or>
           tv_sec (last_tv_system st) \<noteq> tv_sec (sample tx)"
  shows "leap (fst (iteration gmtime mktime tx st)) =
           (last_tai_offset st \<noteq> 0 \<and>
            tai_offset (fst (iteration gmtime mktime tx st)) > last_tai_offset st)"
  using assms
  by (auto simp add: iteration_state clock_update_def slew_step_fields update_offset_def
      detect_step_fields Let_def)

text \<open>The theorem at the turn that crosses the midnight of 2017-01-01 with the offset
  36 recorded: the second changes, the offset becomes 37 and \<open>leap\<close> is set.\<close>

theorem leap_after_recompute_witness:
  "tv_sec (last_tv_system ex_state_before_leap) \<noteq> tv_sec (sample ex_timex_first) \<and>
   leap (fst (iteration ex_gmtime ex_mktime ex_timex_first ex_state_before_leap)) \<and>
   last_tai_offset ex_state_before_leap = 36 \<and>
   tai_offset (fst (iteration ex_gmtime ex_mktime ex_timex_first ex_state_before_leap)) = 37"
proof -
  have h: "step (detect_step (diff_tv (sample ex_timex_first)
                (last_tv_system ex_state_before_leap)) ex_state_before_leap) \<or>
           tv_sec (last_tv_system ex_state_before_leap) \<noteq> tv_sec (sample ex_timex_first)"
    by (simp add: ex_defs model_defs)
  have t: "tai_offset (fst (iteration ex_gmtime ex_mktime ex_timex_first ex_state_before_leap)) = 37"
    by (simp add: ex_defs model_defs)
  show ?thesis
    using leap_after_recompute [OF h, of ex_gmtime ex_mktime] t
    by (simp add: ex_defs sample_def STA_NANO_def)
qed

text \<open>The first turn of a run, from \<open>init_state\<close>: the second changes from 0, the
  offset is recomputed to 37, which exceeds the recorded 0, and \<open>leap\<close> stays
  false.\<close>

theorem first_recompute_no_leap:
  "tv_sec (last_tv_system init_state) \<noteq> tv_sec (sample ex_timex_first) \<and>
   last_tai_offset init_state = 0 \<and>
   tai_offset (fst (iteration ex_gmtime ex_mktime ex_timex_first init_state)) = 37 \<and>
   \<not> leap (fst (iteration ex_gmtime ex_mktime ex_timex_first init_state))"
  by (simp add: ex_defs model_defs)

subsection \<open>The step detector\<close>

text \<open>
  C3. The specification: a turn classified as a backward step sets \<open>step\<close> and leaves
  \<open>slew\<close> as it was. The branch is \<open>step = 1, slew = 0\<close>: whenever the delta is
  classified as a backward step, \<open>step\<close> is set, \<open>slew\<close> is cleared, and nothing
  else of the state changes.
\<close>

theorem backward_step_clears_slew:
  "classify d = BACKWARD_STEP \<Longrightarrow> detect_step d st = st\<lparr>step := True, slew := False\<rparr>"
  by (simp add: detect_step_def)

text \<open>The theorem at a delta of \<open>-0.9\<close> during a slew.\<close>

theorem backward_step_clears_slew_witness:
  "classify (- 0.9) = BACKWARD_STEP \<and>
   detect_step (- 0.9) ex_state_slewing = ex_state_slewing\<lparr>step := True, slew := False\<rparr>"
proof -
  have h: "classify (- 0.9) = BACKWARD_STEP"
    by (simp add: classify_def)
  show ?thesis
    using h backward_step_clears_slew [OF h, of ex_state_slewing] by simp
qed

text \<open>A slew is active, the clock is read 0.9 s before the last sample, and the slew
  is no longer active after the classification.\<close>

theorem backward_step_slew_counterexample:
  "slew ex_state_slewing \<and>
   diff_tv \<lparr>tv_sec = 1483233799, tv_usec = 50000\<rparr> (last_tv_system ex_state_slewing) = - 0.9 \<and>
   classify (diff_tv \<lparr>tv_sec = 1483233799, tv_usec = 50000\<rparr>
                     (last_tv_system ex_state_slewing)) = BACKWARD_STEP \<and>
   \<not> slew (detect_step (diff_tv \<lparr>tv_sec = 1483233799, tv_usec = 50000\<rparr>
                     (last_tv_system ex_state_slewing)) ex_state_slewing)"
  by (simp add: ex_defs model_defs)

text \<open>
  C4. The specification: a delta is a backward step exactly in \<open>(-1.0, -0.8]\<close>, a
  discontinuity exactly above \<open>1.0\<close> or below \<open>-1.0\<close>, and normal otherwise. The
  test is \<open>diff < -0.8\<close>: a delta is a backward step exactly when it lies strictly
  between \<open>-1.0\<close> and \<open>-0.8\<close>, a discontinuity exactly when it is above \<open>1.0\<close> or
  below \<open>-1.0\<close>, and normal otherwise, that is at \<open>-1.0\<close> and from \<open>-0.8\<close> to
  \<open>1.0\<close>, both included. So \<open>-0.9\<close> is a backward step, \<open>-0.8\<close> is normal,
  \<open>1.5\<close> and \<open>-1.5\<close> are discontinuities, and \<open>0.05\<close> is normal and leaves the
  state as it was.
\<close>

theorem classify_intervals:
  "(classify d = BACKWARD_STEP) = (- 1.0 < d \<and> d < - 0.8) \<and>
   (classify d = DISCONTINUITY) = (d > 1.0 \<or> d < - 1.0) \<and>
   (classify d = NORMAL) = (d = - 1.0 \<or> (- 0.8 \<le> d \<and> d \<le> 1.0)) \<and>
   classify (- 0.9) = BACKWARD_STEP \<and> classify (- 0.8) = NORMAL \<and>
   classify 1.5 = DISCONTINUITY \<and> classify (- 1.5) = DISCONTINUITY \<and>
   classify 0.05 = NORMAL \<and> detect_step 0.05 st = st"
  by (auto simp add: classify_def detect_step_def)

text \<open>Two samples 0.8 s apart, the later one read first: the delta is \<open>-0.8\<close>, inside
  \<open>(-1.0, -0.8]\<close>, and the turn is normal.\<close>

theorem classify_boundary_normal:
  "diff_tv \<lparr>tv_sec = 100, tv_usec = 0\<rparr> \<lparr>tv_sec = 100, tv_usec = 800000\<rparr> = - 0.8 \<and>
   classify (diff_tv \<lparr>tv_sec = 100, tv_usec = 0\<rparr> \<lparr>tv_sec = 100, tv_usec = 800000\<rparr>) = NORMAL"
  by (simp add: classify_def diff_tv_def)

subsection \<open>The slew\<close>

lemma borrow_usec_nonneg: "0 \<le> tv_usec (borrow tv)"
proof (induction tv rule: borrow.induct)
  case (1 tv)
  then show ?case by (simp add: borrow.simps [of tv])
qed

lemma borrow_usec_less: "tv_usec tv < 1000000 \<Longrightarrow> tv_usec (borrow tv) < 1000000"
proof (induction tv rule: borrow.induct)
  case (1 tv)
  then show ?case by (simp add: borrow.simps [of tv])
qed

text \<open>The borrow loop moves whole seconds only: the instant in microseconds stays.\<close>

lemma borrow_instant:
  "tv_sec (borrow tv) * 1000000 + tv_usec (borrow tv) = tv_sec tv * 1000000 + tv_usec tv"
proof (induction tv rule: borrow.induct)
  case (1 tv)
  then show ?case by (simp add: borrow.simps [of tv])
qed

lemma trunc_less: "x < 1000000 \<Longrightarrow> trunc x < 1000000"
  by (simp add: trunc_def floor_less_iff ceiling_less_iff)

text \<open>The spacing is a positive power of two, and no more than \<open>x * 2 ^ -52\<close>.\<close>

lemma ulp_up_form: "\<exists>j. ulp_up x u = 2 ^ j * u \<and> (1 \<le> x \<longrightarrow> 2 ^ j \<le> x)"
proof (induction x u rule: ulp_up.induct)
  case (1 x u)
  show ?case
  proof (cases "2 \<le> x")
    case True
    with 1 obtain j where j: "ulp_up (x / 2) (2 * u) = 2 ^ j * (2 * u)"
      and le: "1 \<le> x / 2 \<longrightarrow> 2 ^ j \<le> x / 2"
      by blast
    from True le have "(2::real) ^ Suc j \<le> x" by simp
    moreover from True j have "ulp_up x u = 2 ^ Suc j * u"
      by (simp add: ulp_up.simps [of x u])
    ultimately show ?thesis by blast
  next
    case False
    then have "ulp_up x u = 2 ^ 0 * u" by (simp add: ulp_up.simps [of x u])
    moreover have "1 \<le> x \<longrightarrow> (2::real) ^ 0 \<le> x" by simp
    ultimately show ?thesis by blast
  qed
qed

lemma ulp_down_form: "\<exists>j. ulp_down x u = u / 2 ^ j"
proof (induction x u rule: ulp_down.induct)
  case (1 x u)
  show ?case
  proof (cases "0 < x \<and> x < 1")
    case True
    with 1 obtain j where "ulp_down (2 * x) (u / 2) = u / 2 / 2 ^ j"
      by blast
    with True have "ulp_down x u = u / 2 ^ Suc j"
      by (simp add: ulp_down.simps [of x u])
    then show ?thesis by blast
  next
    case False
    then have "ulp_down x u = u / 2 ^ 0" by (auto simp add: ulp_down.simps [of x u])
    then show ?thesis by blast
  qed
qed

lemma ulp_up_pos: "0 < u \<Longrightarrow> 0 < ulp_up x u"
  using ulp_up_form [of x u] by auto

lemma ulp_down_pos: "0 < u \<Longrightarrow> 0 < ulp_down x u"
  using ulp_down_form [of x u] by auto

lemma ulp_pos: "0 < ulp x"
  by (simp add: ulp_def ulp_up_pos ulp_down_pos)

lemma round_even_bounds: "\<lfloor>q\<rfloor> \<le> round_even q \<and> round_even q \<le> \<lceil>q\<rceil>"
proof -
  have "q = of_int \<lfloor>q\<rfloor> \<or> \<lceil>q\<rceil> = \<lfloor>q\<rfloor> + 1"
    by (metis ceiling_altdef)
  moreover have "q - of_int \<lfloor>q\<rfloor> < 1 / 2" if "q = of_int \<lfloor>q\<rfloor>"
    using that by (metis diff_self half_gt_zero_iff zero_less_one)
  ultimately show ?thesis
    by (auto simp add: round_even_def Let_def)
qed

lemma b64_nonneg: "0 \<le> x \<Longrightarrow> 0 \<le> b64 x"
proof -
  assume "0 \<le> x"
  then have "0 \<le> x / ulp x" using ulp_pos [of x] by simp
  then have "0 \<le> \<lfloor>x / ulp x\<rfloor>" by simp
  with round_even_bounds [of "x / ulp x"] have "0 \<le> round_even (x / ulp x)" by linarith
  then show ?thesis using ulp_pos [of x] by (simp add: b64_def)
qed

text \<open>Rounding does not cross an integer that binary64 holds.\<close>

lemma b64_le_int:
  assumes "0 \<le> N" and "of_int N \<le> (2::real) ^ 52" and "x \<le> of_int N"
  shows "b64 x \<le> of_int N"
proof (cases "0 < x")
  case False
  then have "x / ulp x \<le> 0" using ulp_pos [of x] by (simp add: divide_le_0_iff)
  then have "\<lceil>x / ulp x\<rceil> \<le> 0" by (simp add: ceiling_le_iff)
  with round_even_bounds [of "x / ulp x"] have "round_even (x / ulp x) \<le> 0" by linarith
  then have "of_int (round_even (x / ulp x)) * ulp x \<le> 0"
    using ulp_pos [of x] by (simp add: mult_le_0_iff)
  with assms(1) show ?thesis by (simp add: b64_def)
next
  case True
  have "\<exists>M. of_int N = of_int M * ulp x"
  proof (cases "1 \<le> x")
    case True
    with \<open>0 < x\<close> ulp_up_form [of x "1 / 2 ^ 52"]
    obtain j where u: "ulp x = 2 ^ j * (1 / 2 ^ 52)" and j: "(2::real) ^ j \<le> x"
      by (auto simp add: ulp_def)
    from j assms(2,3) have "(2::real) ^ j \<le> 2 ^ 52" by linarith
    then have "j \<le> 52" by (rule power_le_imp_le_exp [rotated]) simp
    then have "(2::real) ^ 52 = 2 ^ (52 - j) * 2 ^ j"
      by (metis le_add_diff_inverse2 power_add)
    then have "of_int N = of_int (N * 2 ^ (52 - j)) * ulp x"
      by (simp add: u)
    then show ?thesis by blast
  next
    case False
    with \<open>0 < x\<close> ulp_down_form [of x "1 / 2 ^ 52"]
    obtain j where u: "ulp x = 1 / 2 ^ 52 / 2 ^ j"
      by (auto simp add: ulp_def)
    then have "of_int N = of_int (N * 2 ^ 52 * 2 ^ j) * ulp x"
      by simp
    then show ?thesis by blast
  qed
  then obtain M where M: "of_int N = of_int M * ulp x" by blast
  with assms(3) have "x / ulp x \<le> of_int M" using ulp_pos [of x]
    by (simp add: pos_divide_le_eq)
  then have "\<lceil>x / ulp x\<rceil> \<le> M" by (simp add: ceiling_le_iff)
  with round_even_bounds [of "x / ulp x"] have "round_even (x / ulp x) \<le> M" by linarith
  then have "of_int (round_even (x / ulp x)) * ulp x \<le> of_int M * ulp x"
    using ulp_pos [of x] by simp
  with M True show ?thesis by (simp add: b64_def)
qed

lemma slew_step_idle:
  assumes "\<not> slew st" and "\<not> (leap st \<and> c_mod (tv_sec tv) 86400 = 0)"
  shows "slew_step k tv st = (st\<lparr>tick := k\<rparr>, tv)"
  using assms by (auto simp add: slew_step_def Let_def)

lemma slew_step_active:
  assumes "slew st \<or> (leap st \<and> c_mod (tv_sec tv) 86400 = 0)"
  shows "slew_step k tv st =
    (let base = (if slew_tick st = 0 \<or> k < slew_tick st then k else slew_tick st);
         corr = slew_diff (tick st) base tv;
         ended = (corr \<le> 0 \<or> c_div (tick st + base) 2 < k)
     in (st\<lparr>slew := \<not> ended, slew_tick := (if ended then 0 else base)\<rparr>,
         borrow (tv\<lparr>tv_usec :=
           trunc (d_sub (d_of_int (tv_usec tv)) (d_mul (if ended then 0 else corr) 1000000))\<rparr>)))"
  using assms
  by (auto simp add: slew_step_def Let_def)


lemma iteration_slewing:
  assumes "slew (clock_update gmtime mktime tx st) \<or>
         (leap (clock_update gmtime mktime tx st) \<and> c_mod (tv_sec (sample tx)) 86400 = 0)"
  shows "iteration gmtime mktime tx st =
    (let tv = sample tx;
         base = (if slew_tick st = 0 \<or> timex_tick tx < slew_tick st
                 then timex_tick tx else slew_tick st);
         corr = slew_diff (tick st) base tv;
         ended = (corr \<le> 0 \<or> c_div (tick st + base) 2 < timex_tick tx);
         st' = (clock_update gmtime mktime tx st)
                 \<lparr>slew := \<not> ended, slew_tick := (if ended then 0 else base)\<rparr>;
         utc = borrow (tv\<lparr>tv_usec :=
                 trunc (d_sub (d_of_int (tv_usec tv))
                          (d_mul (if ended then 0 else corr) 1000000))\<rparr>)
     in (st', \<lparr>fr_system = tv, fr_utc = utc,
               fr_tai = utc\<lparr>tv_sec := tv_sec utc + tai_offset st'\<rparr>, fr_leap = leap st'\<rparr>))"
  using assms
  by (simp add: iteration_def slew_step_active clock_update_fields Let_def)

text \<open>The slew arithmetic on three readings where the rounding of the doubles decides
  the last microsecond. Arming at tick length 9000, 251802 microseconds into the day:
  the exact correction is 0.972022 and the display would be 279780.\<close>

lemma slew_step_rounding_arming:
  "slew_step 9000 \<lparr>tv_sec = 1483228800, tv_usec = 251802\<rparr> (ex_state_slewing\<lparr>slew_tick := 0\<rparr>) =
     (ex_state_slewing\<lparr>slew_tick := 9000\<rparr>, \<lparr>tv_sec = 1483228799, tv_usec = 279781\<rparr>)"
proof -
  have d: "slew_diff 10000 9000 \<lparr>tv_sec = 1483228800, tv_usec = 251802\<rparr> =
      1094399479248981 / 1125899906842624"
    by (simp add: slew_diff_def c_mod_def c_div_def b64_defs)
  have t: "trunc (d_sub (d_of_int 251802)
             (d_mul (1094399479248981 / 1125899906842624) 1000000)) = - 720219"
    by (simp add: trunc_def b64_defs)
  have a: "slew (ex_state_slewing\<lparr>slew_tick := 0\<rparr>) \<or>
      (leap (ex_state_slewing\<lparr>slew_tick := 0\<rparr>) \<and>
       c_mod (tv_sec \<lparr>tv_sec = 1483228800, tv_usec = 251802\<rparr>) 86400 = 0)"
    by (simp add: ex_defs)
  show ?thesis
    by (subst slew_step_active [OF a]) (simp add: ex_defs Let_def c_div_def d t borrow.simps)
qed

text \<open>1039.99599 s into the day: the exact correction is 0.89599 and the display would
  be 100000.\<close>

lemma slew_step_rounding_down:
  "slew_step 9999 \<lparr>tv_sec = 1483229839, tv_usec = 995990\<rparr> ex_state_slewing =
     (ex_state_slewing, \<lparr>tv_sec = 1483229839, tv_usec = 99999\<rparr>)"
proof -
  have d: "slew_diff 10000 9999 \<lparr>tv_sec = 1483229839, tv_usec = 995990\<rparr> =
      4035180230127691 / 4503599627370496"
    by (simp add: slew_diff_def c_mod_def c_div_def b64_defs)
  have t: "trunc (d_sub (d_of_int 995990)
             (d_mul (4035180230127691 / 4503599627370496) 1000000)) = 99999"
    by (simp add: trunc_def b64_defs)
  have a: "slew ex_state_slewing \<or>
      (leap ex_state_slewing \<and>
       c_mod (tv_sec \<lparr>tv_sec = 1483229839, tv_usec = 995990\<rparr>) 86400 = 0)"
    by (simp add: ex_defs)
  show ?thesis
    by (subst slew_step_active [OF a]) (simp add: ex_defs Let_def c_div_def d t borrow.simps)
qed

text \<open>9.001 s into the day with tick lengths 10001 and 9001: the exact correction is
  0 and would end the slew; binary64 leaves \<open>2 ^ -53\<close>, the slew goes on and the display
  is one microsecond behind.\<close>

lemma slew_step_rounding_residue:
  "slew_step 9001 \<lparr>tv_sec = 1483228809, tv_usec = 1000\<rparr>
       (ex_state_slewing\<lparr>tick := 10001, slew_tick := 9001\<rparr>) =
     (ex_state_slewing\<lparr>tick := 10001, slew_tick := 9001\<rparr>,
      \<lparr>tv_sec = 1483228809, tv_usec = 999\<rparr>)"
proof -
  have d: "slew_diff 10001 9001 \<lparr>tv_sec = 1483228809, tv_usec = 1000\<rparr> =
      1 / 9007199254740992"
    by (simp add: slew_diff_def c_mod_def c_div_def b64_defs)
  have t: "trunc (d_sub (d_of_int 1000) (d_mul (1 / 9007199254740992) 1000000)) = 999"
    by (simp add: trunc_def b64_defs)
  have a: "slew (ex_state_slewing\<lparr>tick := 10001, slew_tick := 9001\<rparr>) \<or>
      (leap (ex_state_slewing\<lparr>tick := 10001, slew_tick := 9001\<rparr>) \<and>
       c_mod (tv_sec \<lparr>tv_sec = 1483228809, tv_usec = 1000\<rparr>) 86400 = 0)"
    by (simp add: ex_defs)
  show ?thesis
    by (subst slew_step_active [OF a]) (simp add: ex_defs Let_def c_div_def d t borrow.simps)
qed

text \<open>
  C5. The specification takes the tick length observed in the same turn as
  \<open>currentTick\<close>. The code takes \<open>tick\<close>, which is assigned only in turns without a
  slew. In every turn that enters the slew branch (the slew was active, or \<open>leap\<close> holds
  at second 0 of a day) with a positive kernel tick length:
  the base \<open>slew_tick\<close> is the stored one, replaced by the tick length of this turn when
  the stored one is 0 or larger; the correction is
  \<open>1.0 - ((tick - base) / base) * secondsOfDayWithFraction\<close> as binary64 computes it,
  every operation rounded, where \<open>tick\<close> is the tick length recorded in the last turn
  without a slew; when that value is at most 0, or the tick length of this turn exceeds
  \<open>(tick + base) / 2\<close>, the correction is 0 instead and the slew ends with
  \<open>slew_tick\<close> reset; the displayed UTC microseconds are the sampled ones minus the
  correction times 1000000, both rounded to binary64, truncated towards zero and then
  borrowed from the seconds while negative.
\<close>

theorem slew_correction:
  assumes "0 < timex_tick tx"
    and "slew (clock_update gmtime mktime tx st) \<or>
         (leap (clock_update gmtime mktime tx st) \<and> c_mod (tv_sec (sample tx)) 86400 = 0)"
  shows "iteration gmtime mktime tx st =
    (let tv = sample tx;
         base = (if slew_tick st = 0 \<or> timex_tick tx < slew_tick st
                 then timex_tick tx else slew_tick st);
         corr = slew_diff (tick st) base tv;
         ended = (corr \<le> 0 \<or> c_div (tick st + base) 2 < timex_tick tx);
         st' = (clock_update gmtime mktime tx st)
                 \<lparr>slew := \<not> ended, slew_tick := (if ended then 0 else base)\<rparr>;
         utc = borrow (tv\<lparr>tv_usec :=
                 trunc (d_sub (d_of_int (tv_usec tv))
                          (d_mul (if ended then 0 else corr) 1000000))\<rparr>)
     in (st', \<lparr>fr_system = tv, fr_utc = utc,
               fr_tai = utc\<lparr>tv_sec := tv_sec utc + tai_offset st'\<rparr>, fr_leap = leap st'\<rparr>))"
  using assms(2) by (rule iteration_slewing)

text \<open>The theorem at a turn 5000.019948 s into a slew, where the tick length was 10000
  before the slew and is 9999 now. The exact correction is 0.499948; binary64 gives
  \<open>4503131253009249 / 2 ^ 53\<close>, just below it, so that \<open>19948 - 499947.99...\<close> is
  truncated to \<open>-479999\<close> and the display is 520001 microseconds, not 520000.\<close>

theorem slew_correction_witness:
  "0 < timex_tick ex_timex_slewing_later \<and>
   slew (clock_update ex_gmtime ex_mktime ex_timex_slewing_later ex_state_slewing) \<and>
   slew_diff (tick ex_state_slewing) 9999 (sample ex_timex_slewing_later) =
     4503131253009249 / 2 ^ 53 \<and>
   iteration ex_gmtime ex_mktime ex_timex_slewing_later ex_state_slewing =
     (ex_state_slewing\<lparr>last_tv_system := \<lparr>tv_sec = 1483233800, tv_usec = 19948\<rparr>\<rparr>,
      \<lparr>fr_system = \<lparr>tv_sec = 1483233800, tv_usec = 19948\<rparr>,
       fr_utc = \<lparr>tv_sec = 1483233799, tv_usec = 520001\<rparr>,
       fr_tai = \<lparr>tv_sec = 1483233836, tv_usec = 520001\<rparr>, fr_leap = False\<rparr>)"
proof -
  have h1: "0 < timex_tick ex_timex_slewing_later"
    by (simp add: ex_defs)
  have h2: "slew (clock_update ex_gmtime ex_mktime ex_timex_slewing_later ex_state_slewing) \<or>
    (leap (clock_update ex_gmtime ex_mktime ex_timex_slewing_later ex_state_slewing) \<and>
     c_mod (tv_sec (sample ex_timex_slewing_later)) 86400 = 0)"
    by (simp add: ex_defs model_defs)
  have c: "clock_update ex_gmtime ex_mktime ex_timex_slewing_later ex_state_slewing =
     ex_state_slewing\<lparr>last_tv_system := \<lparr>tv_sec = 1483233800, tv_usec = 19948\<rparr>\<rparr>"
    by (simp add: ex_defs model_defs)
  have d: "slew_diff 10000 9999 \<lparr>tv_sec = 1483233800, tv_usec = 19948\<rparr> =
     4503131253009249 / 9007199254740992"
    by (simp add: slew_diff_def c_mod_def c_div_def b64_defs)
  have t: "trunc (d_sub (d_of_int 19948)
             (d_mul (4503131253009249 / 9007199254740992) 1000000)) = - 479999"
    by (simp add: trunc_def b64_defs)
  show ?thesis
    using slew_correction [OF h1 h2] unfolding c
    by (simp add: d t ex_defs sample_def STA_NANO_def c_div_def Let_def borrow.simps)
qed

text \<open>The turn at the start of that second against the specification's reading: with
  the tick length of this turn as \<open>currentTick\<close> the correction would be 1 and the
  display a whole second behind the system time, while the code displays 500051
  microseconds.\<close>

theorem current_tick_counterexample:
  "slew ex_state_slewing \<and>
   slew (fst (iteration ex_gmtime ex_mktime ex_timex_slewing ex_state_slewing)) \<and>
   slew_tick (fst (iteration ex_gmtime ex_mktime ex_timex_slewing ex_state_slewing)) = 9999 \<and>
   fr_utc (snd (iteration ex_gmtime ex_mktime ex_timex_slewing ex_state_slewing)) =
     \<lparr>tv_sec = 1483233799, tv_usec = 500051\<rparr> \<and>
   slew_diff (timex_tick ex_timex_slewing) 9999 (sample ex_timex_slewing) = 1 \<and>
   borrow ((sample ex_timex_slewing)\<lparr>tv_usec :=
      trunc (d_sub (d_of_int (tv_usec (sample ex_timex_slewing)))
               (d_mul (slew_diff (timex_tick ex_timex_slewing) 9999 (sample ex_timex_slewing))
                  1000000))\<rparr>) =
     \<lparr>tv_sec = 1483233799, tv_usec = 0\<rparr>"
proof -
  have a: "slew (clock_update ex_gmtime ex_mktime ex_timex_slewing ex_state_slewing) \<or>
    (leap (clock_update ex_gmtime ex_mktime ex_timex_slewing ex_state_slewing) \<and>
     c_mod (tv_sec (sample ex_timex_slewing)) 86400 = 0)"
    by (simp add: ex_defs model_defs)
  have c: "clock_update ex_gmtime ex_mktime ex_timex_slewing ex_state_slewing =
     ex_state_slewing\<lparr>last_tv_system := \<lparr>tv_sec = 1483233800, tv_usec = 0\<rparr>\<rparr>"
    by (simp add: ex_defs model_defs)
  have d: "slew_diff 10000 9999 \<lparr>tv_sec = 1483233800, tv_usec = 0\<rparr> =
     2251574611183629 / 4503599627370496"
    by (simp add: slew_diff_def c_mod_def c_div_def b64_defs)
  have t: "trunc (d_sub (d_of_int 0)
             (d_mul (2251574611183629 / 4503599627370496) 1000000)) = - 499949"
    by (simp add: trunc_def b64_defs)
  have d': "slew_diff 9999 9999 \<lparr>tv_sec = 1483233800, tv_usec = 0\<rparr> = 1"
    by (simp add: slew_diff_def c_mod_def c_div_def b64_defs)
  have t': "trunc (d_sub (d_of_int 0) (d_mul 1 1000000)) = - 1000000"
    by (simp add: trunc_def b64_defs)
  have it: "iteration ex_gmtime ex_mktime ex_timex_slewing ex_state_slewing =
     (ex_state_slewing\<lparr>last_tv_system := \<lparr>tv_sec = 1483233800, tv_usec = 0\<rparr>\<rparr>,
      \<lparr>fr_system = \<lparr>tv_sec = 1483233800, tv_usec = 0\<rparr>,
       fr_utc = \<lparr>tv_sec = 1483233799, tv_usec = 500051\<rparr>,
       fr_tai = \<lparr>tv_sec = 1483233836, tv_usec = 500051\<rparr>, fr_leap = False\<rparr>)"
    by (subst iteration_slewing [OF a], unfold c)
      (simp add: d t ex_defs sample_def STA_NANO_def c_div_def Let_def borrow.simps)
  show ?thesis
    unfolding it
    by (simp add: d' t' ex_defs sample_def STA_NANO_def borrow.simps)
qed

text \<open>
  C8. In every turn whose sampled microseconds are in \<open>[0, 1000000)\<close> and whose kernel
  tick length is positive, the displayed UTC microseconds are in \<open>[0, 1000000)\<close>,
  whether or not the slew is active: the correction is never negative and rounding
  crosses neither 0 nor 999999, so the subtraction stays below 1000000, and the borrow
  loop ends on the first value that is not negative.
\<close>

theorem utc_usec_normalised:
  assumes "0 \<le> tv_usec (sample tx)" and "tv_usec (sample tx) < 1000000"
    and "0 < timex_tick tx"
  shows "0 \<le> tv_usec (fr_utc (snd (iteration gmtime mktime tx st))) \<and>
         tv_usec (fr_utc (snd (iteration gmtime mktime tx st))) < 1000000"
proof -
  let ?st = "clock_update gmtime mktime tx st"
  let ?tv = "sample tx"
  show ?thesis
  proof (cases "slew ?st \<or> (leap ?st \<and> c_mod (tv_sec ?tv) 86400 = 0)")
    case False
    then have "snd (slew_step (timex_tick tx) ?tv ?st) = ?tv"
      by (simp add: slew_step_idle)
    with assms show ?thesis by (simp add: iteration_utc)
  next
    case True
    define base where
      "base = (if slew_tick ?st = 0 \<or> timex_tick tx < slew_tick ?st
               then timex_tick tx else slew_tick ?st)"
    define corr where "corr = slew_diff (tick ?st) base ?tv"
    define d where
      "d = (if corr \<le> 0 \<or> c_div (tick ?st + base) 2 < timex_tick tx then 0 else corr)"
    define y where "y = d_sub (d_of_int (tv_usec ?tv)) (d_mul d 1000000)"
    have d: "0 \<le> d"
      by (simp add: d_def)
    from True have eq: "snd (slew_step (timex_tick tx) ?tv ?st) =
        borrow (?tv\<lparr>tv_usec := trunc y\<rparr>)"
      by (simp add: slew_step_active Let_def y_def d_def corr_def base_def)
    have top: "real_of_int 999999 \<le> 2 ^ 52"
      by simp
    from d have "0 \<le> d * 1000000" by simp
    then have m: "0 \<le> d_mul d 1000000"
      unfolding d_mul_def by (rule b64_nonneg)
    from assms(2) have "real_of_int (tv_usec ?tv) \<le> real_of_int 999999" by simp
    then have "d_of_int (tv_usec ?tv) \<le> real_of_int 999999"
      unfolding d_of_int_def by (intro b64_le_int top) simp
    with m have "d_of_int (tv_usec ?tv) - d_mul d 1000000 \<le> real_of_int 999999"
      by linarith
    then have "y \<le> real_of_int 999999"
      unfolding y_def d_sub_def by (intro b64_le_int top) simp
    then have "y < 1000000" by simp
    then have "trunc y < 1000000"
      by (rule trunc_less)
    then have "tv_usec (borrow (?tv\<lparr>tv_usec := trunc y\<rparr>)) < 1000000"
      by (intro borrow_usec_less) simp
    with eq show ?thesis by (simp add: iteration_utc borrow_usec_nonneg)
  qed
qed

text \<open>The theorem at the turn that arms the slew, read in nanoseconds: the sample is
  normalised to 123456 microseconds, the correction is a whole second and the borrow
  loop runs once.\<close>

theorem utc_usec_normalised_witness:
  "tv_usec (sample ex_timex_nano) = 123456 \<and> 0 < timex_tick ex_timex_nano \<and>
   slew (fst (iteration ex_gmtime ex_mktime ex_timex_nano ex_state_before_leap)) \<and>
   0 \<le> tv_usec (fr_utc (snd (iteration ex_gmtime ex_mktime ex_timex_nano ex_state_before_leap))) \<and>
   tv_usec (fr_utc (snd (iteration ex_gmtime ex_mktime ex_timex_nano ex_state_before_leap))) < 1000000"
proof -
  have u: "tv_usec (sample ex_timex_nano) = 123456"
    by (simp add: ex_defs sample_def STA_NANO_def c_div_def)
  have h1: "0 \<le> tv_usec (sample ex_timex_nano)" and h2: "tv_usec (sample ex_timex_nano) < 1000000"
    by (simp_all add: u)
  have h3: "0 < timex_tick ex_timex_nano"
    by (simp add: ex_defs)
  have a: "slew (clock_update ex_gmtime ex_mktime ex_timex_nano ex_state_before_leap) \<or>
    (leap (clock_update ex_gmtime ex_mktime ex_timex_nano ex_state_before_leap) \<and>
     c_mod (tv_sec (sample ex_timex_nano)) 86400 = 0)"
    by (simp add: ex_defs model_defs)
  have d: "slew_diff 10000 10000 \<lparr>tv_sec = 1483228800, tv_usec = 123456\<rparr> = 1"
    by (simp add: slew_diff_def c_mod_def c_div_def b64_defs)
  have s: "slew (fst (iteration ex_gmtime ex_mktime ex_timex_nano ex_state_before_leap))"
    by (subst iteration_slewing [OF a])
      (simp add: d ex_defs sample_def STA_NANO_def c_div_def Let_def)
  show ?thesis
    using utc_usec_normalised [OF h1 h2 h3, of ex_gmtime ex_mktime ex_state_before_leap] u h3 s
    by simp
qed

subsection \<open>The output\<close>

text \<open>
  C7. In every turn the seconds of the TAI instant are the seconds of the UTC instant
  plus \<open>tai_offset\<close> as the turn leaves it, and the microseconds of the two are the
  same.
\<close>

theorem tai_is_utc_plus_offset:
  "tv_sec (fr_tai (snd (iteration gmtime mktime tx st))) =
     tv_sec (fr_utc (snd (iteration gmtime mktime tx st))) +
     tai_offset (fst (iteration gmtime mktime tx st)) \<and>
   tv_usec (fr_tai (snd (iteration gmtime mktime tx st))) =
     tv_usec (fr_utc (snd (iteration gmtime mktime tx st)))"
  by (simp add: iteration_def Let_def split: prod.split)

subsection \<open>Leaving the loop\<close>

text \<open>
  C9. The specification: when the clock query fails the process ends at once with status
  1, without a retry, after the display is released. Started without \<open>-d\<close>, with a
  first poll without input and a failing \<open>adjtimex\<close>, \<open>main\<close> returns 1 from inside
  the loop, reads no further event, and the terminal is still in curses mode: line 131
  returns without the \<open>endwin\<close> of line 192.
\<close>

theorem fatal_exit_keeps_curses:
  "main gmtime mktime [''leapclock'']
     (\<lparr>ev_getch = ERR, ev_adjtimex = - 1, ev_timex = tx\<rparr> # rest) =
   Some \<lparr>exit_status = 1, curses_mode = True, frames = []\<rparr>"
  by (simp add: main_def)

lemma main_loop_running:
  "(main_loop g m dbg st fs evs = None) =
     (\<forall>e\<in>set evs. (ev_getch e = ERR \<or> ev_getch e = KEY_RESIZE) \<and> 0 \<le> ev_adjtimex e)"
  by (induction evs arbitrary: st fs) (auto split: prod.split)

lemma main_loop_key:
  assumes "\<forall>e\<in>set pre. (ev_getch e = ERR \<or> ev_getch e = KEY_RESIZE) \<and> 0 \<le> ev_adjtimex e"
    and "ev_getch k \<noteq> ERR" and "ev_getch k \<noteq> KEY_RESIZE"
  shows "\<exists>fs'. main_loop g m dbg st fs (pre @ k # post) =
            Some \<lparr>exit_status = 0, curses_mode = False, frames = fs'\<rparr> \<and>
          length fs' = length fs + length pre"
  using assms
proof (induction pre arbitrary: st fs)
  case Nil
  then show ?case by simp
next
  case (Cons e pre)
  obtain st' fr where it: "iteration g m (ev_timex e) st = (st', fr)"
    by (cases "iteration g m (ev_timex e) st")
  from Cons.prems have "\<forall>e\<in>set pre. (ev_getch e = ERR \<or> ev_getch e = KEY_RESIZE) \<and> 0 \<le> ev_adjtimex e"
    by simp
  from Cons.IH [OF this Cons.prems(2,3), of st' "fr # fs"]
  obtain fs' where "main_loop g m dbg st' (fr # fs) (pre @ k # post) =
      Some \<lparr>exit_status = 0, curses_mode = False, frames = fs'\<rparr>"
    and "length fs' = length (fr # fs) + length pre"
    by blast
  with Cons.prems(1) it show ?case by auto
qed

lemma main_loop_key_only:
  assumes "ev_getch k \<noteq> ERR" and "ev_getch k \<noteq> KEY_RESIZE"
    and "ev_getch k' \<noteq> ERR" and "ev_getch k' \<noteq> KEY_RESIZE"
  shows "main_loop g m dbg st fs (pre @ k # post) = main_loop g m dbg st fs (pre @ k' # post')"
  using assms by (induction pre arbitrary: st fs) (auto split: prod.split)

text \<open>
  C10. The specification: the loop iterates exactly as long as the poll returns no input or
  a resize. A failing clock query ends it too. The run goes on exactly as long as every
  poll returns \<open>ERR\<close> or \<open>KEY_RESIZE\<close> and the clock query of the turn succeeds. After
  such turns, the first poll that returns anything else ends the run with status 0 and
  the terminal out of curses mode; one frame was drawn for each earlier turn and none
  for this one; the outcome depends neither on what the clock query would have returned
  in this turn nor on any later event.
\<close>

theorem key_ends_loop:
  assumes "\<forall>e\<in>set pre. (ev_getch e = ERR \<or> ev_getch e = KEY_RESIZE) \<and> 0 \<le> ev_adjtimex e"
    and "ev_getch k \<noteq> ERR" and "ev_getch k \<noteq> KEY_RESIZE"
  shows "(main gmtime mktime argv evs = None) =
           (\<forall>e\<in>set evs. (ev_getch e = ERR \<or> ev_getch e = KEY_RESIZE) \<and> 0 \<le> ev_adjtimex e) \<and>
         main gmtime mktime argv pre = None \<and>
         (\<exists>fs. main gmtime mktime argv (pre @ k # post) =
                  Some \<lparr>exit_status = 0, curses_mode = False, frames = fs\<rparr> \<and>
                length fs = length pre) \<and>
         main gmtime mktime argv (pre @ k # post) =
           main gmtime mktime argv (pre @ [k\<lparr>ev_adjtimex := a, ev_timex := tx\<rparr>])"
proof -
  have "(main gmtime mktime argv evs = None) =
           (\<forall>e\<in>set evs. (ev_getch e = ERR \<or> ev_getch e = KEY_RESIZE) \<and> 0 \<le> ev_adjtimex e)"
    by (simp add: main_def main_loop_running)
  moreover have "main gmtime mktime argv pre = None"
    using assms(1) by (simp add: main_def main_loop_running)
  moreover have "\<exists>fs. main gmtime mktime argv (pre @ k # post) =
                  Some \<lparr>exit_status = 0, curses_mode = False, frames = fs\<rparr> \<and>
                length fs = length pre"
    using main_loop_key [OF assms, of gmtime mktime _ init_state "[]" post]
    by (simp add: main_def)
  moreover have "main gmtime mktime argv (pre @ k # post) =
           main gmtime mktime argv (pre @ [k\<lparr>ev_adjtimex := a, ev_timex := tx\<rparr>])"
    unfolding main_def Let_def
    by (rule main_loop_key_only) (simp_all add: assms(2,3))
  ultimately show ?thesis by blast
qed

text \<open>The theorem on two turns, one of them after a resize, then the key \<open>q\<close>.\<close>

theorem key_ends_loop_witness:
  "main ex_gmtime ex_mktime [''leapclock'']
     [\<lparr>ev_getch = ERR, ev_adjtimex = 0, ev_timex = ex_timex_first\<rparr>,
      \<lparr>ev_getch = KEY_RESIZE, ev_adjtimex = 0, ev_timex = ex_timex_nano\<rparr>] = None \<and>
   (\<exists>fs. main ex_gmtime ex_mktime [''leapclock'']
           [\<lparr>ev_getch = ERR, ev_adjtimex = 0, ev_timex = ex_timex_first\<rparr>,
            \<lparr>ev_getch = KEY_RESIZE, ev_adjtimex = 0, ev_timex = ex_timex_nano\<rparr>,
            \<lparr>ev_getch = 113, ev_adjtimex = - 1, ev_timex = ex_timex_nano\<rparr>,
            \<lparr>ev_getch = ERR, ev_adjtimex = 0, ev_timex = ex_timex_nano\<rparr>] =
         Some \<lparr>exit_status = 0, curses_mode = False, frames = fs\<rparr> \<and> length fs = 2)"
proof -
  let ?pre = "[\<lparr>ev_getch = ERR, ev_adjtimex = 0, ev_timex = ex_timex_first\<rparr>,
      \<lparr>ev_getch = KEY_RESIZE, ev_adjtimex = 0, ev_timex = ex_timex_nano\<rparr>]"
  let ?k = "\<lparr>ev_getch = 113, ev_adjtimex = - 1, ev_timex = ex_timex_nano\<rparr>"
  have h1: "\<forall>e\<in>set ?pre. (ev_getch e = ERR \<or> ev_getch e = KEY_RESIZE) \<and> 0 \<le> ev_adjtimex e"
    by simp
  have h2: "ev_getch ?k \<noteq> ERR" and h3: "ev_getch ?k \<noteq> KEY_RESIZE"
    by (simp_all add: ERR_def KEY_RESIZE_def)
  let ?post = "[\<lparr>ev_getch = ERR, ev_adjtimex = 0, ev_timex = ex_timex_nano\<rparr>]"
  from key_ends_loop [OF h1 h2 h3, where gmtime = ex_gmtime and mktime = ex_mktime
        and argv = "[''leapclock'']" and a = 0 and tx = ex_timex_first and post = ?post
        and evs = ?pre]
  have running: "main ex_gmtime ex_mktime [''leapclock''] ?pre = None"
    and ended: "\<exists>fs. main ex_gmtime ex_mktime [''leapclock''] (?pre @ ?k # ?post) =
         Some \<lparr>exit_status = 0, curses_mode = False, frames = fs\<rparr> \<and> length fs = length ?pre"
    by blast+
  from running ended show ?thesis by (simp add: numeral_2_eq_2)
qed

text \<open>Two polls without input, the clock query failing at the first: the run has
  ended with status 1 and no frame, and the second poll is never made.\<close>

theorem failed_query_ends_loop:
  "main ex_gmtime ex_mktime [''leapclock'']
     [\<lparr>ev_getch = ERR, ev_adjtimex = - 1, ev_timex = ex_timex_first\<rparr>,
      \<lparr>ev_getch = ERR, ev_adjtimex = 0, ev_timex = ex_timex_first\<rparr>] =
   Some \<lparr>exit_status = 1, curses_mode = True, frames = []\<rparr>"
  by (simp add: main_def)

end
